theory Spec2Isabelle
  imports Main "HOL-Library.AList" "HOL-Library.Sublist"
begin

section \<open>Values, dictionaries and Python truthiness\<close>

text \<open>
  Every payload of the chat service is a Python value that came out of a JSON document
  (a request body, a Socket.IO packet, a Celery argument).  The type \<open>json\<close> lists the
  shapes such a value can have.  A Python \<open>dict\<close> keeps its insertion order, so it is an
  association list; the first binding of a key is the one that counts.  Python's \<open>None\<close>
  is \<open>JNull\<close>.  Numbers are integers here: no function of the service computes with them.
\<close>

datatype json =
    JNull
  | JBool bool
  | JNum int
  | JStr string
  | JList "json list"
  | JDict "(string \<times> json) list"

type_synonym pydict = "(string \<times> json) list"

text \<open>\<^verbatim>\<open>bool(x)\<close>, as used by \<^verbatim>\<open>if x:\<close> and \<^verbatim>\<open>if not x:\<close>.\<close>

fun truthy :: "json \<Rightarrow> bool" where
  "truthy JNull = False"
| "truthy (JBool b) = b"
| "truthy (JNum n) = (n \<noteq> 0)"
| "truthy (JStr s) = (s \<noteq> [])"
| "truthy (JList xs) = (xs \<noteq> [])"
| "truthy (JDict d) = (d \<noteq> [])"

text \<open>\<^verbatim>\<open>d.get(k, default)\<close> and \<^verbatim>\<open>d.get(k)\<close>, whose default is \<open>None\<close>.\<close>

definition dict_get_default :: "pydict \<Rightarrow> string \<Rightarrow> json \<Rightarrow> json" where
  "dict_get_default d k dflt = (case map_of d k of None \<Rightarrow> dflt | Some v \<Rightarrow> v)"

definition dict_get :: "pydict \<Rightarrow> string \<Rightarrow> json" where
  "dict_get d k = dict_get_default d k JNull"

text \<open>\<^verbatim>\<open>k in d\<close> for a dict \<open>d\<close>.\<close>

definition dict_has :: "pydict \<Rightarrow> string \<Rightarrow> bool" where
  "dict_has d k = (map_of d k \<noteq> None)"

text \<open>\<^verbatim>\<open>d[k] = v\<close>: an existing key keeps its place, a new key goes last.\<close>

definition dict_set :: "pydict \<Rightarrow> string \<Rightarrow> json \<Rightarrow> pydict" where
  "dict_set d k v = AList.update k v d"

text \<open>
  The exceptions that the modelled code can meet.  A raise of the source is a value
  \<open>Inl e\<close> of a sum type; \<open>Inr\<close> is a normal return.
\<close>

datatype exn =
    AttributeError
  | TypeError
  | KeyError
  | ValueError
  | JSONDecodeError
  | RequestException
  | ResponseJSONError
  | Base64Error
  | ImageError
  | IndexError
  | OSError
  | ModelLoadError
  | TranscribeError
  | SocketIOError
  | RedisError
  | BrokerError

section \<open>Collaborators: what the code calls, and what it is told\<close>

text \<open>
  The service talks to a Socket.IO server, a Redis publish channel, a Celery broker, an
  HTTP image generator, a speech model and the file system.  A run of a function is
  described by the \<^emph>\<open>trace\<close> of calls it makes on them, in order, next to its result.
  A call is listed when it is made; whether the collaborator then accepts it or raises
  is decided by the environment record \<open>env\<close>, and the code's \<^verbatim>\<open>try\<close>/\<^verbatim>\<open>except\<close> blocks
  are branches on that answer.
\<close>

datatype target =
    ToAll "string option"   \<comment> \<open>\<^verbatim>\<open>socketio.emit(ev, data)\<close>, with an optional \<^verbatim>\<open>skip_sid\<close>\<close>
  | ToRoom json             \<comment> \<open>\<^verbatim>\<open>socketio.emit(ev, data, room=r)\<close>\<close>

datatype level = Debug | Info | Warning | Error

datatype effect =
    Emit string pydict target     \<comment> \<open>\<^verbatim>\<open>socketio.emit\<close> / \<^verbatim>\<open>flask_socketio.emit\<close>\<close>
  | Publish string pydict         \<comment> \<open>\<^verbatim>\<open>redis_client.publish(topic, json.dumps(d))\<close>\<close>
  | Enqueue string pydict         \<comment> \<open>\<^verbatim>\<open>task.delay(d)\<close> / \<^verbatim>\<open>celery.send_task(name, args=[d])\<close>\<close>
  | HttpPost string pydict        \<comment> \<open>\<^verbatim>\<open>requests.post(url, json=d, ...)\<close>\<close>
  | Log level

type_synonym trace = "effect list"

datatype http_outcome =
    PostRaises                      \<comment> \<open>timeout, refused connection, ...\<close>
  | Response int "json option"      \<comment> \<open>status code; the body, \<open>None\<close> if \<^verbatim>\<open>response.json()\<close> raises\<close>

record env =
  socketio_ok :: bool                                \<comment> \<open>\<^verbatim>\<open>socketio.emit\<close> returns\<close>
  redis_ok :: bool                                   \<comment> \<open>\<^verbatim>\<open>redis_client.publish\<close> returns\<close>
  broker_ok :: bool                                  \<comment> \<open>\<^verbatim>\<open>delay\<close> / \<^verbatim>\<open>send_task\<close> return\<close>
  new_id :: string                                   \<comment> \<open>the id \<^verbatim>\<open>Message.create\<close> draws\<close>
  now :: string                                      \<comment> \<open>\<^verbatim>\<open>datetime.utcnow().isoformat()\<close>\<close>
  json_loads :: "string \<Rightarrow> json option"              \<comment> \<open>\<open>None\<close>: \<^verbatim>\<open>json.JSONDecodeError\<close>\<close>
  http_post :: "pydict \<Rightarrow> http_outcome"              \<comment> \<open>the generator's answer to a request body\<close>
  b64decode :: "string \<Rightarrow> string option"             \<comment> \<open>\<open>None\<close>: \<^verbatim>\<open>binascii.Error\<close>\<close>
  to_jpeg_b64 :: "string \<Rightarrow> string option"           \<comment> \<open>open, save as JPEG, encode; \<open>None\<close>: PIL raises\<close>
  model_load_ok :: bool                              \<comment> \<open>\<^verbatim>\<open>WhisperModel(...)\<close> returns\<close>
  open_ok :: bool                                    \<comment> \<open>\<^verbatim>\<open>open(temp_path, 'wb')\<close> returns\<close>
  transcribe :: "string \<Rightarrow> string list option"       \<comment> \<open>segment texts for a file's bytes; \<open>None\<close>: raises\<close>
  py_repr :: "json \<Rightarrow> string"                      \<comment> \<open>\<^verbatim>\<open>str(v)\<close> of a value that is not a string\<close>
  exn_str :: "exn \<Rightarrow> string"                       \<comment> \<open>\<^verbatim>\<open>str(e)\<close> of an exception\<close>

text \<open>The four selectors of a trace that the properties speak about.\<close>

fun is_emit :: "effect \<Rightarrow> bool" where
  "is_emit (Emit ev d t) = True"
| "is_emit e = False"

fun is_publish :: "effect \<Rightarrow> bool" where
  "is_publish (Publish topic d) = True"
| "is_publish e = False"

fun is_enqueue :: "effect \<Rightarrow> bool" where
  "is_enqueue (Enqueue name d) = True"
| "is_enqueue e = False"

fun is_post :: "effect \<Rightarrow> bool" where
  "is_post (HttpPost url d) = True"
| "is_post e = False"

definition emits :: "trace \<Rightarrow> trace" where
  "emits tr = filter is_emit tr"

definition publishes :: "trace \<Rightarrow> trace" where
  "publishes tr = filter is_publish tr"

definition enqueues :: "trace \<Rightarrow> trace" where
  "enqueues tr = filter is_enqueue tr"

definition posts :: "trace \<Rightarrow> trace" where
  "posts tr = filter is_post tr"

section \<open>Message model (\<^verbatim>\<open>chatService/models/__init__.py\<close>)\<close>

record message =
  msg_id :: string
  msg_type :: json
  msg_content :: json
  msg_sender :: json
  msg_timestamp :: string
  msg_format :: json

text \<open>\<^verbatim>\<open>Message.create\<close>: the id and the timestamp are drawn from the environment.\<close>

definition create :: "env \<Rightarrow> json \<Rightarrow> json \<Rightarrow> json \<Rightarrow> json \<Rightarrow> message" where
  "create e message_type content sender fmt =
     \<lparr>msg_id = new_id e, msg_type = message_type, msg_content = content,
      msg_sender = sender, msg_timestamp = now e, msg_format = fmt\<rparr>"

definition to_dict :: "message \<Rightarrow> pydict" where
  "to_dict m =
     (let result = [(''id'', JStr (msg_id m)), (''type'', msg_type m),
                    (''content'', msg_content m), (''sender'', msg_sender m),
                    (''timestamp'', JStr (msg_timestamp m))]
      in if truthy (msg_format m) then dict_set result ''format'' (msg_format m) else result)"

section \<open>Validation (\<^verbatim>\<open>MessageService.validate_message\<close>, \<^verbatim>\<open>normalize_message_data\<close>)\<close>

text \<open>
  An f-string field \<^verbatim>\<open>{v}\<close>: a string is inserted as it is, any other value as the
  runtime prints it.
\<close>

definition fmt_value :: "env \<Rightarrow> json \<Rightarrow> string" where
  "fmt_value e v = (case v of JStr s \<Rightarrow> s | _ \<Rightarrow> py_repr e v)"

definition valid_types :: "json list" where
  "valid_types = [JStr ''text'', JStr ''image'', JStr ''audio'']"

text \<open>
  \<^verbatim>\<open>validate_message(data)\<close>.  The argument is whatever the caller parsed: the REST
  endpoints pass \<^verbatim>\<open>request.get_json()\<close> on.  \<^verbatim>\<open>data.get\<close> exists on a dict only; on any
  other value that passed \<^verbatim>\<open>if not data\<close> it raises \<^verbatim>\<open>AttributeError\<close>.
\<close>

definition validate_message :: "env \<Rightarrow> json \<Rightarrow> exn + (bool \<times> string)" where
  "validate_message e data =
     (if \<not> truthy data then Inr (False, ''No data provided'')
      else case data of
        JDict d \<Rightarrow>
          (let content = dict_get d ''content'' in
           if \<not> truthy content then Inr (False, ''Content is required'')
           else
             let message_type = dict_get_default d ''type'' (JStr ''text'') in
             if message_type \<notin> set valid_types
             then Inr (False, ''Invalid message type: '' @ fmt_value e message_type)
             else Inr (True, []))
      | _ \<Rightarrow> Inl AttributeError)"

definition normalize_message_data :: "pydict \<Rightarrow> pydict" where
  "normalize_message_data data =
     (if \<not> dict_has data ''content'' \<or> \<not> truthy (dict_get data ''content'')
      then (if dict_has data ''text'' \<and> truthy (dict_get data ''text'')
            then dict_set data ''content'' (dict_get data ''text'')
            else data)
      else data)"

section \<open>Calls on the collaborators\<close>

text \<open>Each call is listed in the trace, then returns or raises as the environment says.\<close>

definition socketio_emit :: "env \<Rightarrow> string \<Rightarrow> pydict \<Rightarrow> target \<Rightarrow> trace \<times> (exn + unit)" where
  "socketio_emit e ev d t =
     ([Emit ev d t], if socketio_ok e then Inr () else Inl SocketIOError)"

definition redis_publish :: "env \<Rightarrow> string \<Rightarrow> pydict \<Rightarrow> trace \<times> (exn + unit)" where
  "redis_publish e topic d =
     ([Publish topic d], if redis_ok e then Inr () else Inl RedisError)"

definition delay :: "env \<Rightarrow> string \<Rightarrow> pydict \<Rightarrow> trace \<times> (exn + unit)" where
  "delay e name d =
     ([Enqueue name d], if broker_ok e then Inr () else Inl BrokerError)"

definition send_task :: "env \<Rightarrow> string \<Rightarrow> pydict \<Rightarrow> trace \<times> (exn + unit)" where
  "send_task e name d =
     ([Enqueue name d], if broker_ok e then Inr () else Inl BrokerError)"

text \<open>
  Modelled from the spec: the transport's direct-send capability
  (\<^verbatim>\<open>emitTo(sessionId, event, payload)\<close> / \<^verbatim>\<open>emitAll(event, payload, excluding?)\<close>), which
  is the Socket.IO library and not code of the repository.  An emit to a room named by
  a session id reaches that session if it is connected and nobody else (the repository
  never joins a session to another room); an emit without a room reaches every
  connected session but the skipped one.  \<open>reg\<close> is the set of connected sessions at
  the time of the call.
\<close>

fun receivers :: "string set \<Rightarrow> effect \<Rightarrow> string set" where
  "receivers reg (Emit ev d (ToRoom r)) = {s \<in> reg. JStr s = r}"
| "receivers reg (Emit ev d (ToAll skip)) = {s \<in> reg. Some s \<noteq> skip}"
| "receivers reg x = {}"

text \<open>The sessions that are sent the event \<open>ev\<close> somewhere in a trace.\<close>

fun event_receivers :: "string set \<Rightarrow> string \<Rightarrow> effect \<Rightarrow> string set" where
  "event_receivers reg ev (Emit ev' d t) =
     (if ev' = ev then receivers reg (Emit ev' d t) else {})"
| "event_receivers reg ev x = {}"

definition receivers_of :: "string set \<Rightarrow> string \<Rightarrow> trace \<Rightarrow> string set" where
  "receivers_of reg ev tr = \<Union> (set (map (event_receivers reg ev) tr))"

section \<open>Message service (\<^verbatim>\<open>chatService/services/message_service.py\<close>)\<close>

definition create_message :: "env \<Rightarrow> json \<Rightarrow> json \<Rightarrow> json \<Rightarrow> json \<Rightarrow> message" where
  "create_message e message_type content sender fmt = create e message_type content sender fmt"

text \<open>
  \<^verbatim>\<open>broadcast_message(message, include_sender, skip_sid)\<close>: one emit, then one publish to
  the topic \<^verbatim>\<open>'messages'\<close>; an exception of either is logged and raised again.
\<close>

definition broadcast_message ::
  "env \<Rightarrow> message \<Rightarrow> bool \<Rightarrow> string option \<Rightarrow> trace \<times> (exn + unit)" where
  "broadcast_message e m include_sender skip_sid =
     (let message_dict = to_dict m;
          t = (if include_sender then ToAll None
               else (case skip_sid of
                       Some s \<Rightarrow> if s \<noteq> [] then ToAll (Some s) else ToAll None
                     | None \<Rightarrow> ToAll None));
          (tr1, r1) = socketio_emit e ''message'' message_dict t
      in case r1 of
           Inl x \<Rightarrow> (Log Debug # tr1 @ [Log Error], Inl x)
         | Inr u \<Rightarrow>
             (let (tr2, r2) = redis_publish e ''messages'' message_dict
              in case r2 of
                   Inl x \<Rightarrow> (Log Debug # tr1 @ tr2 @ [Log Error], Inl x)
                 | Inr u \<Rightarrow> (Log Debug # tr1 @ tr2 @ [Log Info], Inr ())))"

text \<open>\<^verbatim>\<open>send_to_sender(message, sid)\<close>: an exception is logged and swallowed.\<close>

definition send_to_sender :: "env \<Rightarrow> message \<Rightarrow> string \<Rightarrow> trace" where
  "send_to_sender e m sid =
     (let (tr, r) = socketio_emit e ''message'' (to_dict m) (ToRoom (JStr sid))
      in case r of Inl x \<Rightarrow> tr @ [Log Error] | Inr u \<Rightarrow> tr @ [Log Debug])"

text \<open>
  \<^verbatim>\<open>process_incoming_message\<close> returns the pair \<^verbatim>\<open>(message, None)\<close> or \<^verbatim>\<open>(None, error)\<close>.
  Its three flags default to \<^verbatim>\<open>send_confirmation=False\<close>, \<^verbatim>\<open>broadcast_to_others=False\<close>
  and \<^verbatim>\<open>queue_async_task=True\<close>.
\<close>

definition process_incoming_message ::
  "env \<Rightarrow> pydict \<Rightarrow> string \<Rightarrow> bool \<Rightarrow> bool \<Rightarrow> bool \<Rightarrow> trace \<times> message option \<times> string option" where
  "process_incoming_message e data0 sender_sid send_confirmation broadcast_to_others queue_async_task =
     (let data = normalize_message_data data0 in
      case validate_message e (JDict data) of
        Inl x \<Rightarrow> ([Log Error], None, Some (''Internal server error: '' @ exn_str e x))
      | Inr (is_valid, error_message) \<Rightarrow>
          if \<not> is_valid then ([], None, Some error_message)
          else
           (let message_type = dict_get_default data ''type'' (JStr ''text'');
                content = dict_get data ''content'';
                sender = dict_get_default data ''sender'' (JStr ''anonymous'');
                fmt = dict_get data ''format'';
                m = create_message e message_type content sender fmt;
                message_dict = to_dict m;
                tr1 = (if send_confirmation then send_to_sender e m sender_sid else []);
                (tr2, r2) = (if broadcast_to_others
                             then broadcast_message e m False (Some sender_sid)
                             else ([], Inr ()))
            in case r2 of
                 Inl x \<Rightarrow> (tr1 @ tr2 @ [Log Error], None,
                           Some (''Internal server error: '' @ exn_str e x))
               | Inr u \<Rightarrow>
                   (let tr3 =
                      (if queue_async_task
                       then (let (tr, r) = send_task e ''chatService.process_message_async''
                                                 (dict_set message_dict ''sid'' (JStr sender_sid))
                             in case r of Inl x \<Rightarrow> tr @ [Log Warning] | Inr u \<Rightarrow> tr @ [Log Debug])
                       else [])
                    in (tr1 @ tr2 @ tr3 @ [Log Info], Some m, None))))"

section \<open>Ingress: the WebSocket handler and the REST endpoint\<close>

text \<open>
  \<^verbatim>\<open>handle_message(data)\<close> of \<^verbatim>\<open>websocket/handlers.py\<close>, for the session \<open>sid\<close>.  It calls
  \<^verbatim>\<open>process_incoming_message(data, sender_sid=sid)\<close>, so with the default flags.  Its
  \<^verbatim>\<open>emit('error', ...)\<close> answers the calling session only; when that emit raises, the
  handler's \<^verbatim>\<open>except\<close> logs and emits once more, and an exception of this last emit
  leaves the handler.
\<close>

definition emit_error :: "env \<Rightarrow> string \<Rightarrow> string \<Rightarrow> trace \<times> (exn + unit)" where
  "emit_error e sid text = socketio_emit e ''error'' [(''message'', JStr text)] (ToRoom (JStr sid))"

definition handle_message :: "env \<Rightarrow> json \<Rightarrow> string \<Rightarrow> trace \<times> (exn + unit)" where
  "handle_message e data sid =
     (let (tr, r) =
        (case data of
           JDict d \<Rightarrow>
             (let (tr0, m, error) =
                    process_incoming_message e (dict_set d ''sid'' (JStr sid)) sid False False True
              in case error of
                   Some err \<Rightarrow>
                     (if err \<noteq> []
                      then (let (tr1, r1) = emit_error e sid err in (tr0 @ tr1, r1))
                      else (tr0 @ [Log Info], Inr ()))
                 | None \<Rightarrow> (tr0 @ [Log Info], Inr ()))
         | _ \<Rightarrow> emit_error e sid ''Invalid message format'')
      in case r of
           Inr u \<Rightarrow> (tr, Inr ())
         | Inl x \<Rightarrow>
             (let (tr2, r2) = emit_error e sid (''Internal server error: '' @ exn_str e x)
              in (tr @ [Log Error] @ tr2, r2)))"

text \<open>
  \<^verbatim>\<open>send_message()\<close> of \<^verbatim>\<open>routes/api_routes.py\<close>, on the parsed request body; it returns
  the status code and the JSON body of the response.
\<close>

definition send_message :: "env \<Rightarrow> json \<Rightarrow> trace \<times> nat \<times> pydict" where
  "send_message e data =
     (case validate_message e data of
        Inl x \<Rightarrow> ([Log Error], 500, [(''error'', JStr ''Internal server error'')])
      | Inr (is_valid, error_message) \<Rightarrow>
          if \<not> is_valid then ([], 400, [(''error'', JStr error_message)])
          else
            (case data of
               JDict d \<Rightarrow>
                 (let message_type = dict_get_default d ''type'' (JStr ''text'');
                      content = dict_get d ''content'';
                      sender = dict_get_default d ''sender'' (JStr ''anonymous'');
                      fmt = dict_get d ''format'';
                      m = create_message e message_type content sender fmt;
                      (tr, r) = broadcast_message e m True None
                  in case r of
                       Inl x \<Rightarrow> (tr @ [Log Error], 500, [(''error'', JStr ''Internal server error'')])
                     | Inr u \<Rightarrow> (tr @ [Log Info], 200,
                                [(''success'', JBool True), (''message'', JDict (to_dict m))]))
             | _ \<Rightarrow> ([Log Error], 500, [(''error'', JStr ''Internal server error'')])))"

section \<open>Session registry (\<^verbatim>\<open>ConnectionService\<close>)\<close>

text \<open>The object's only field is the Python set \<^verbatim>\<open>_active_connections\<close>.\<close>

type_synonym connection_service = "string set"

definition init_connections :: connection_service where
  "init_connections = {}"

definition add_connection :: "connection_service \<Rightarrow> string \<Rightarrow> connection_service" where
  "add_connection c sid = insert sid c"

definition remove_connection :: "connection_service \<Rightarrow> string \<Rightarrow> connection_service" where
  "remove_connection c sid = c - {sid}"

definition get_connection_count :: "connection_service \<Rightarrow> nat" where
  "get_connection_count c = card c"

definition is_connected :: "connection_service \<Rightarrow> string \<Rightarrow> bool" where
  "is_connected c sid = (sid \<in> c)"

text \<open>A sequence of calls on the registry, run from the left.\<close>

datatype reg_op = Add string | Remove string

fun reg_step :: "connection_service \<Rightarrow> reg_op \<Rightarrow> connection_service" where
  "reg_step c (Add sid) = add_connection c sid"
| "reg_step c (Remove sid) = remove_connection c sid"

fun reg_run :: "connection_service \<Rightarrow> reg_op list \<Rightarrow> connection_service" where
  "reg_run c [] = c"
| "reg_run c (x # xs) = reg_run (reg_step c x) xs"

text \<open>
  The specification's reading of a sequence: an id is live when the sequence adds it
  somewhere and does not remove it afterwards.
\<close>

definition live :: "reg_op list \<Rightarrow> string set" where
  "live ops = {sid. \<exists>pre post. ops = pre @ Add sid # post \<and> Remove sid \<notin> set post}"

section \<open>Background tasks (\<^verbatim>\<open>chatService/tasks/message_tasks.py\<close>)\<close>

subsection \<open>Routing: \<^verbatim>\<open>process_message_async\<close>\<close>

text \<open>
  The two \<^verbatim>\<open>if\<close> statements follow each other; a \<^verbatim>\<open>delay\<close> that raises is logged
  and swallowed.  With a dict for argument nothing in the body raises, and the task
  returns its result dict.
\<close>

definition process_message_async :: "env \<Rightarrow> pydict \<Rightarrow> trace \<times> (exn + pydict)" where
  "process_message_async e message_data =
     (let msg_type = dict_get_default message_data ''type'' (JStr []);
          content = dict_get_default message_data ''content'' (JStr []);
          tr1 = (if msg_type = JStr ''text'' \<and> truthy content
                 then (let (tr, r) = delay e ''chatService.generate_image_async'' message_data
                       in case r of Inl x \<Rightarrow> Log Info # tr @ [Log Error] | Inr u \<Rightarrow> Log Info # tr)
                 else [Log Info]);
          tr2 = (if msg_type = JStr ''audio'' \<and> truthy content
                 then (let (tr, r) = delay e ''chatService.whisper_audio_async'' message_data
                       in case r of
                            Inl x \<Rightarrow> Log Info # tr @ [Log Error]
                          | Inr u \<Rightarrow> Log Info # tr @ [Log Info])
                 else []);
          result = [(''status'', JStr ''processed''),
                    (''message_id'', dict_get message_data ''id''),
                    (''data'', JDict message_data)]
      in ([Log Info, Log Info] @ tr1 @ tr2 @ [Log Info], Inr result))"

subsection \<open>Python operations on values of unknown shape\<close>

text \<open>\<^verbatim>\<open>v[:80]\<close> is defined on strings and lists; on every other value it raises.\<close>

fun sliceable :: "json \<Rightarrow> bool" where
  "sliceable (JStr s) = True"
| "sliceable (JList xs) = True"
| "sliceable v = False"

text \<open>\<^verbatim>\<open>k in v\<close> for a string \<open>k\<close>: a key of a dict, an element of a list, a part of a string.\<close>

fun contains_key :: "json \<Rightarrow> string \<Rightarrow> exn + bool" where
  "contains_key (JDict d) k = Inr (dict_has d k)"
| "contains_key (JList xs) k = Inr (JStr k \<in> set xs)"
| "contains_key (JStr s) k = Inr (sublist k s)"
| "contains_key v k = Inl TypeError"

text \<open>\<^verbatim>\<open>v[k]\<close> for a string \<open>k\<close>.\<close>

fun subscript_key :: "json \<Rightarrow> string \<Rightarrow> exn + json" where
  "subscript_key (JDict d) k = (case map_of d k of None \<Rightarrow> Inl KeyError | Some v \<Rightarrow> Inr v)"
| "subscript_key v k = Inl TypeError"

text \<open>\<^verbatim>\<open>len(v)\<close>.\<close>

fun py_len :: "json \<Rightarrow> exn + nat" where
  "py_len (JStr s) = Inr (length s)"
| "py_len (JList xs) = Inr (length xs)"
| "py_len (JDict d) = Inr (length d)"
| "py_len v = Inl TypeError"

text \<open>\<^verbatim>\<open>v[0]\<close>; the keys of a dict that came from JSON are strings, so \<open>0\<close> is none of them.\<close>

fun subscript0 :: "json \<Rightarrow> exn + json" where
  "subscript0 (JList []) = Inl IndexError"
| "subscript0 (JList (x # xs)) = Inr x"
| "subscript0 (JStr []) = Inl IndexError"
| "subscript0 (JStr (c # cs)) = Inr (JStr [c])"
| "subscript0 (JDict d) = Inl KeyError"
| "subscript0 v = Inl TypeError"

subsection \<open>Image generation: \<^verbatim>\<open>generate_image_async\<close>\<close>

definition generate_image_URL :: string where
  "generate_image_URL = ''http://localhost:9000/generate''"

text \<open>
  Lines 126 to 136: the prompt is the \<^verbatim>\<open>text\<close> field of the content when the content
  parses as a JSON object, the content itself when it does not parse.  Only
  \<^verbatim>\<open>json.JSONDecodeError\<close> is caught there: a content that parses to something without
  \<^verbatim>\<open>.get\<close> raises \<^verbatim>\<open>AttributeError\<close> to the outer handler.
\<close>

definition prompt_text_of :: "env \<Rightarrow> json \<Rightarrow> exn + json" where
  "prompt_text_of e image_prompt =
     (case image_prompt of
        JStr s \<Rightarrow>
          (case json_loads e s of
             None \<Rightarrow> Inr image_prompt
           | Some prompt_data \<Rightarrow>
               (case prompt_data of
                  JDict pd \<Rightarrow> Inr (dict_get_default pd ''text'' image_prompt)
                | _ \<Rightarrow> Inl AttributeError))
      | _ \<Rightarrow> Inr image_prompt)"

text \<open>
  Line 161, \<^verbatim>\<open>"images" not in data or len(data["images"]) == 0\<close>: \<open>None\<close> when the test
  holds, the image list when it does not.
\<close>

definition check_images :: "json \<Rightarrow> exn + json option" where
  "check_images data =
     (case contains_key data ''images'' of
        Inl x \<Rightarrow> Inl x
      | Inr present \<Rightarrow>
          if \<not> present then Inr None
          else (case subscript_key data ''images'' of
                  Inl x \<Rightarrow> Inl x
                | Inr images \<Rightarrow>
                    (case py_len images of
                       Inl x \<Rightarrow> Inl x
                     | Inr n \<Rightarrow> if n = 0 then Inr None else Inr (Some images))))"

text \<open>
  Lines 175 to 212, the inner \<^verbatim>\<open>try\<close>: the first image is decoded, re-encoded as JPEG
  and emitted as the event \<^verbatim>\<open>'image'\<close> with \<^verbatim>\<open>room=sender_sid\<close>.  Whatever raises in
  there is logged and swallowed.
\<close>

definition emit_image :: "env \<Rightarrow> pydict \<Rightarrow> json \<Rightarrow> json \<Rightarrow> trace" where
  "emit_image e message_data prompt_text images =
     (let sender_sid = dict_get message_data ''sid'' in
      if truthy sender_sid
      then (case subscript0 images of
              Inl x \<Rightarrow> [Log Error]
            | Inr img_data_base64 \<Rightarrow>
                (case img_data_base64 of
                   JStr s \<Rightarrow>
                     (case b64decode e s of
                        None \<Rightarrow> [Log Error]
                      | Some img_bytes \<Rightarrow>
                          (case to_jpeg_b64 e img_bytes of
                             None \<Rightarrow> [Log Error]
                           | Some img_base64 \<Rightarrow>
                               (let (tr, r) =
                                      socketio_emit e ''image''
                                        [(''status'', JStr ''success''),
                                         (''type'', JStr ''image''),
                                         (''image_data'', JStr img_base64),
                                         (''message_id'', dict_get message_data ''id''),
                                         (''prompt'', prompt_text),
                                         (''sender'', JStr ''Server'')]
                                        (ToRoom sender_sid)
                                in case r of
                                     Inl x \<Rightarrow> tr @ [Log Error]
                                   | Inr u \<Rightarrow> tr @ [Log Info])))
                 | _ \<Rightarrow> [Log Error]))
      else [Log Warning])"

text \<open>
  The task returns the pair \<^verbatim>\<open>(result, None)\<close> or \<^verbatim>\<open>(None, error)\<close>; the outer
  \<^verbatim>\<open>except Exception\<close> turns every exception into the second.
\<close>

definition gen_error :: "env \<Rightarrow> exn \<Rightarrow> string" where
  "gen_error e x = ''Error generating image: '' @ exn_str e x"

definition generate_image_async :: "env \<Rightarrow> pydict \<Rightarrow> trace \<times> pydict option \<times> string option" where
  "generate_image_async e message_data =
     (let image_prompt = dict_get_default message_data ''content'' (JStr []) in
      if \<not> sliceable image_prompt then ([Log Error], None, Some (gen_error e TypeError))
      else
       (case prompt_text_of e image_prompt of
          Inl x \<Rightarrow> ([Log Info, Log Error], None, Some (gen_error e x))
        | Inr prompt_text \<Rightarrow>
           (let json_data = [(''positive'', prompt_text), (''negative'', JStr []),
                             (''height'', JNum 512), (''width'', JNum 512)];
                tr0 = [Log Info, HttpPost generate_image_URL json_data]
            in case http_post e json_data of
                 PostRaises \<Rightarrow> (tr0 @ [Log Error], None, Some (gen_error e RequestException))
               | Response status_code body \<Rightarrow>
                   if status_code \<noteq> 200
                   then (tr0 @ [Log Error], None,
                         Some (''API Error: '' @ py_repr e (JNum status_code)))
                   else
                    (case body of
                       None \<Rightarrow> (tr0 @ [Log Error], None, Some (gen_error e ResponseJSONError))
                     | Some data \<Rightarrow>
                        (case check_images data of
                           Inl x \<Rightarrow> (tr0 @ [Log Error], None, Some (gen_error e x))
                         | Inr found \<Rightarrow>
                            (case found of
                               None \<Rightarrow> (tr0 @ [Log Error], None,
                                         Some ''API Error: No images returned from API'')
                             | Some images \<Rightarrow>
                                 if \<not> sliceable prompt_text
                                 then (tr0 @ [Log Error], None, Some (gen_error e TypeError))
                                 else
                                  (let tr1 = emit_image e message_data prompt_text images
                                   in case subscript0 images of
                                        Inl x \<Rightarrow> (tr0 @ [Log Info] @ tr1 @ [Log Error], None,
                                                  Some (gen_error e x))
                                      | Inr first \<Rightarrow>
                                          (tr0 @ [Log Info] @ tr1,
                                           Some [(''prompt'', prompt_text),
                                                 (''images'', JList [first])],
                                           None))))))))"

subsection \<open>Transcription: \<^verbatim>\<open>whisper_audio_async\<close>\<close>

text \<open>
  The file system, as far as the task touches it: the content of each file that exists,
  and the paths that have an open handle.
\<close>

record fs_state =
  files :: "string \<Rightarrow> string option"
  open_handles :: "string list"

definition open_wb :: "fs_state \<Rightarrow> string \<Rightarrow> fs_state" where
  "open_wb fs path = fs\<lparr>files := (files fs)(path \<mapsto> []), open_handles := path # open_handles fs\<rparr>"

definition write_file :: "fs_state \<Rightarrow> string \<Rightarrow> string \<Rightarrow> fs_state" where
  "write_file fs path bytes =
     fs\<lparr>files := (files fs)(path \<mapsto> (case files fs path of None \<Rightarrow> bytes | Some old \<Rightarrow> old @ bytes))\<rparr>"

definition close_file :: "fs_state \<Rightarrow> string \<Rightarrow> fs_state" where
  "close_file fs path = fs\<lparr>open_handles := remove1 path (open_handles fs)\<rparr>"

definition temp_path :: string where
  "temp_path = ''temp.wav''"

text \<open>
  \<^verbatim>\<open>str.lstrip()\<close> on the ASCII range: tab, line feed, vertical tab, form feed, carriage
  return, the four separators \<^verbatim>\<open>\x1c\<close> to \<^verbatim>\<open>\x1f\<close> and the space.
\<close>

definition is_space :: "char \<Rightarrow> bool" where
  "is_space c = (c \<in> set [CHR 0x09, CHR 0x0A, CHR 0x0B, CHR 0x0C, CHR 0x0D,
                           CHR 0x1C, CHR 0x1D, CHR 0x1E, CHR 0x1F, CHR 0x20])"

definition lstrip :: "string \<Rightarrow> string" where
  "lstrip s = dropWhile is_space s"

text \<open>
  Lines 231 and 253 to 254: \<^verbatim>\<open>result\<close> starts as one space, and every segment adds its
  text, stripped on the left, and two line feeds.
\<close>

definition segments_text :: "string list \<Rightarrow> string" where
  "segments_text segments =
     foldl (\<lambda>result text. result @ lstrip text @ [CHR 0x0A, CHR 0x0A]) '' '' segments"

text \<open>\<^verbatim>\<open>base64.b64decode(audio_base64)\<close>: the argument has to be a string.\<close>

definition decode_audio :: "env \<Rightarrow> json \<Rightarrow> exn + string" where
  "decode_audio e audio_base64 =
     (case audio_base64 of
        JStr s \<Rightarrow> (case b64decode e s of None \<Rightarrow> Inl Base64Error | Some bytes \<Rightarrow> Inr bytes)
      | _ \<Rightarrow> Inl TypeError)"

text \<open>
  The task.  \<^verbatim>\<open>WhisperModel(...)\<close> on line 236 is called before the \<^verbatim>\<open>try\<close> on line 238,
  so its exception leaves the task (\<open>Inl\<close>); everything after it is inside the \<^verbatim>\<open>try\<close>
  and ends in the pair \<^verbatim>\<open>(None, str(e))\<close>.  The name \<^verbatim>\<open>WhisperModel\<close> is bound by the
  unconditional import on line 22, so the test \<^verbatim>\<open>WhisperModel is None\<close> never holds.
  The \<^verbatim>\<open>with\<close> statement closes the handle when its body ends or raises; no statement
  of the task removes the file.
\<close>

definition whisper_audio_async ::
  "env \<Rightarrow> fs_state \<Rightarrow> pydict \<Rightarrow> fs_state \<times> trace \<times> (exn + (pydict option \<times> string option))" where
  "whisper_audio_async e fs message_data =
     (if \<not> model_load_ok e then (fs, [], Inl ModelLoadError)
      else
       (let audio_base64 = dict_get_default message_data ''content'' (JStr []) in
        if \<not> truthy audio_base64
        then (fs, [Log Error], Inr (None, Some (exn_str e ValueError)))
        else if \<not> open_ok e
        then (fs, [Log Error], Inr (None, Some (exn_str e OSError)))
        else
         (let fs1 = open_wb fs temp_path in
          case decode_audio e audio_base64 of
            Inl x \<Rightarrow> (close_file fs1 temp_path, [Log Error], Inr (None, Some (exn_str e x)))
          | Inr bytes \<Rightarrow>
             (let fs2 = close_file (write_file fs1 temp_path bytes) temp_path in
              case (case files fs2 temp_path of None \<Rightarrow> None | Some audio \<Rightarrow> transcribe e audio) of
                None \<Rightarrow> (fs2, [Log Error], Inr (None, Some (exn_str e TranscribeError)))
              | Some segments \<Rightarrow>
                 (let result = segments_text segments;
                      message_data' = dict_set message_data ''content'' (JStr result);
                      (tr, r) = delay e ''chatService.generate_image_async'' message_data'
                  in case r of
                       Inl x \<Rightarrow> (fs2, tr @ [Log Error], Inr (None, Some (exn_str e x)))
                     | Inr u \<Rightarrow> (fs2, tr @ [Log Info],
                                Inr (Some [(''text'', JStr result)], None)))))))"

section \<open>Concrete environments and inputs\<close>

text \<open>
  An environment in which every collaborator answers: the generator returns one image,
  the decoders are the identity, and the speech model hears one segment.
\<close>

definition mock_env :: env where
  "mock_env =
     \<lparr>socketio_ok = True, redis_ok = True, broker_ok = True,
      new_id = ''msg_1'', now = ''t0'',
      json_loads = (\<lambda>s. None),
      http_post = (\<lambda>d. Response 200 (Some (JDict [(''images'', JList [JStr ''aW1n''])]))),
      b64decode = (\<lambda>s. Some s),
      to_jpeg_b64 = (\<lambda>s. Some s),
      model_load_ok = True, open_ok = True,
      transcribe = (\<lambda>audio. Some [''hello world'']),
      py_repr = (\<lambda>v. ''?''),
      exn_str = (\<lambda>x. ''exception'')\<rparr>"

definition empty_fs :: fs_state where
  "empty_fs = \<lparr>files = (\<lambda>p. None), open_handles = []\<rparr>"

definition text_job :: pydict where
  "text_job = [(''id'', JStr ''msg_1''), (''type'', JStr ''text''), (''content'', JStr ''a cat''),
               (''sender'', JStr ''anonymous''), (''timestamp'', JStr ''t0''), (''sid'', JStr ''A'')]"

definition audio_job :: pydict where
  "audio_job = [(''id'', JStr ''msg_2''), (''type'', JStr ''audio''), (''content'', JStr ''UklGRg==''),
                (''sender'', JStr ''anonymous''), (''timestamp'', JStr ''t0''), (''sid'', JStr ''A'')]"

section \<open>Notions of the specification\<close>






text \<open>The type and the content of a job payload, as the routing step reads them.\<close>

definition payload_type :: "pydict \<Rightarrow> json" where
  "payload_type message_data = dict_get_default message_data ''type'' (JStr [])"

definition has_content :: "pydict \<Rightarrow> bool" where
  "has_content message_data = truthy (dict_get_default message_data ''content'' (JStr []))"

definition image_job :: string where
  "image_job = ''chatService.generate_image_async''"

definition transcription_job :: string where
  "transcription_job = ''chatService.whisper_audio_async''"

definition routing_job :: string where
  "routing_job = ''chatService.process_message_async''"

text \<open>
  An answer of the image generator that the specification calls a failure: a status
  other than 200, or a JSON object whose image list is missing or empty.
\<close>

definition no_image_list :: "json \<Rightarrow> bool" where
  "no_image_list data =
     (case data of
        JDict d \<Rightarrow> (case map_of d ''images'' of None \<Rightarrow> True | Some images \<Rightarrow> images = JList [])
      | _ \<Rightarrow> False)"

definition bad_response :: "http_outcome \<Rightarrow> bool" where
  "bad_response r =
     (case r of
        PostRaises \<Rightarrow> False
      | Response status_code body \<Rightarrow>
          status_code \<noteq> 200 \<or> (case body of None \<Rightarrow> False | Some data \<Rightarrow> no_image_list data))"

text \<open>
  The message that the service builds from an object without a \<^verbatim>\<open>type\<close> field: the type
  is the default \<^verbatim>\<open>'text'\<close>, the other fields are read from the object.
\<close>

definition default_text_message :: "env \<Rightarrow> pydict \<Rightarrow> message" where
  "default_text_message e d =
     create_message e (JStr ''text'') (dict_get d ''content'')
       (dict_get_default d ''sender'' (JStr ''anonymous'')) (dict_get d ''format'')"

section \<open>The session registry follows the sequence of calls\<close>

lemma live_Nil: "live [] = {}"
  by (simp add: live_def)

lemma live_snoc_split:
  assumes "ops @ [x] = pre @ Add sid # post"
  shows "(post = [] \<and> x = Add sid \<and> ops = pre) \<or>
         (\<exists>post'. post = post' @ [x] \<and> ops = pre @ Add sid # post')"
proof (cases post rule: rev_cases)
  case Nil
  with assms show ?thesis by simp
next
  case (snoc post' y)
  with assms have "ops @ [x] = (pre @ Add sid # post') @ [y]" by simp
  then have "ops = pre @ Add sid # post'" and "x = y" by simp_all
  with snoc show ?thesis by simp
qed

lemma liveI: "ops = pre @ Add sid # post \<Longrightarrow> Remove sid \<notin> set post \<Longrightarrow> sid \<in> live ops"
  unfolding live_def by blast

lemma liveE:
  assumes "sid \<in> live ops"
  obtains pre post where "ops = pre @ Add sid # post" and "Remove sid \<notin> set post"
  using assms unfolding live_def by blast

lemma live_snoc_Add: "live (ops @ [Add s]) = insert s (live ops)"
proof (rule set_eqI)
  fix sid
  show "sid \<in> live (ops @ [Add s]) \<longleftrightarrow> sid \<in> insert s (live ops)"
  proof
    assume "sid \<in> live (ops @ [Add s])"
    then obtain pre post where eq: "ops @ [Add s] = pre @ Add sid # post"
      and nr: "Remove sid \<notin> set post"
      by (rule liveE)
    from live_snoc_split [OF eq] show "sid \<in> insert s (live ops)"
    proof
      assume "post = [] \<and> Add s = Add sid \<and> ops = pre"
      then show ?thesis by simp
    next
      assume "\<exists>post'. post = post' @ [Add s] \<and> ops = pre @ Add sid # post'"
      then obtain post' where "post = post' @ [Add s]" and o: "ops = pre @ Add sid # post'"
        by blast
      with nr have "Remove sid \<notin> set post'" by simp
      with o have "sid \<in> live ops" by (rule liveI)
      then show ?thesis by simp
    qed
  next
    assume "sid \<in> insert s (live ops)"
    then consider "sid = s" | "sid \<in> live ops" by auto
    then show "sid \<in> live (ops @ [Add s])"
    proof cases
      case 1
      have "ops @ [Add s] = ops @ Add sid # []" using 1 by simp
      then show ?thesis by (rule liveI) simp
    next
      case 2
      then obtain pre post where "ops = pre @ Add sid # post" and nr: "Remove sid \<notin> set post"
        by (rule liveE)
      then have "ops @ [Add s] = pre @ Add sid # (post @ [Add s])" by simp
      then show ?thesis by (rule liveI) (use nr in simp)
    qed
  qed
qed

lemma live_snoc_Remove: "live (ops @ [Remove s]) = live ops - {s}"
proof (rule set_eqI)
  fix sid
  show "sid \<in> live (ops @ [Remove s]) \<longleftrightarrow> sid \<in> live ops - {s}"
  proof
    assume "sid \<in> live (ops @ [Remove s])"
    then obtain pre post where eq: "ops @ [Remove s] = pre @ Add sid # post"
      and nr: "Remove sid \<notin> set post"
      by (rule liveE)
    from live_snoc_split [OF eq]
    obtain post' where p: "post = post' @ [Remove s]" and o: "ops = pre @ Add sid # post'"
      by auto
    from p nr have "Remove sid \<notin> set post'" and "sid \<noteq> s" by auto
    with o have "sid \<in> live ops" by (auto intro: liveI)
    with \<open>sid \<noteq> s\<close> show "sid \<in> live ops - {s}" by simp
  next
    assume a: "sid \<in> live ops - {s}"
    then have "sid \<in> live ops" and ne: "sid \<noteq> s" by simp_all
    then obtain pre post where "ops = pre @ Add sid # post" and nr: "Remove sid \<notin> set post"
      by (auto elim: liveE)
    then have "ops @ [Remove s] = pre @ Add sid # (post @ [Remove s])" by simp
    then show "sid \<in> live (ops @ [Remove s])" by (rule liveI) (use nr ne in simp)
  qed
qed

lemma reg_run_snoc: "reg_run c (ops @ [x]) = reg_step (reg_run c ops) x"
  by (induction ops arbitrary: c) auto

lemma reg_run_live: "reg_run init_connections ops = live ops"
proof (induction ops rule: rev_induct)
  case Nil
  show ?case by (simp add: init_connections_def live_Nil)
next
  case (snoc x xs)
  show ?case
  proof (cases x)
    case (Add s)
    with snoc show ?thesis
      by (simp add: reg_run_snoc live_snoc_Add add_connection_def)
  next
    case (Remove s)
    with snoc show ?thesis
      by (simp add: reg_run_snoc live_snoc_Remove remove_connection_def)
  qed
qed

text \<open>
  Claim C9.  For every sequence of \<^verbatim>\<open>add\<close> and \<^verbatim>\<open>remove\<close> calls on a registry that starts
  empty, the count is the number of distinct ids that were added and not removed
  afterwards, and \<^verbatim>\<open>is_connected\<close> holds for exactly those ids.
\<close>

theorem registry_count_contains:
  "get_connection_count (reg_run init_connections ops) = card (live ops) \<and>
   (\<forall>sid. is_connected (reg_run init_connections ops) sid \<longleftrightarrow> sid \<in> live ops)"
  by (simp add: reg_run_live get_connection_count_def is_connected_def)

theorem registry_count_contains_witness:
  "card (live [Add ''A'', Add ''B'', Add ''A'', Remove ''B'', Add ''C'', Remove ''A'', Add ''A'']) = 2 \<and>
   ''A'' \<in> live [Add ''A'', Add ''B'', Add ''A'', Remove ''B'', Add ''C'', Remove ''A'', Add ''A''] \<and>
   ''B'' \<notin> live [Add ''A'', Add ''B'', Add ''A'', Remove ''B'', Add ''C'', Remove ''A'', Add ''A'']"
proof -
  let ?ops = "[Add ''A'', Add ''B'', Add ''A'', Remove ''B'', Add ''C'', Remove ''A'', Add ''A'']"
  have run: "reg_run init_connections ?ops = {''A'', ''C''}"
    by (simp add: init_connections_def add_connection_def remove_connection_def
        insert_Diff_if insert_commute)
  have c: "card {''A'', ''C''} = (2::nat)" by simp
  from registry_count_contains [of ?ops]
  have "card (live ?ops) = card {''A'', ''C''}" and "live ?ops = {''A'', ''C''}"
    unfolding run get_connection_count_def is_connected_def by auto
  then show ?thesis by simp
qed

section \<open>The validator\<close>






section \<open>Traces of the message service and of the jobs\<close>

lemma enqueues_simps:
  "enqueues [] = []"
  "enqueues (Enqueue n d # tr) = Enqueue n d # enqueues tr"
  "enqueues (Emit ev d t # tr) = enqueues tr"
  "enqueues (Publish tp d # tr) = enqueues tr"
  "enqueues (HttpPost u d # tr) = enqueues tr"
  "enqueues (Log l # tr) = enqueues tr"
  "enqueues (tr1 @ tr2) = enqueues tr1 @ enqueues tr2"
  by (simp_all add: enqueues_def)

lemma emits_simps:
  "emits [] = []"
  "emits (Enqueue n d # tr) = emits tr"
  "emits (Emit ev d t # tr) = Emit ev d t # emits tr"
  "emits (Publish tp d # tr) = emits tr"
  "emits (HttpPost u d # tr) = emits tr"
  "emits (Log l # tr) = emits tr"
  "emits (tr1 @ tr2) = emits tr1 @ emits tr2"
  by (simp_all add: emits_def)

lemma publishes_simps:
  "publishes [] = []"
  "publishes (Enqueue n d # tr) = publishes tr"
  "publishes (Emit ev d t # tr) = publishes tr"
  "publishes (Publish tp d # tr) = Publish tp d # publishes tr"
  "publishes (HttpPost u d # tr) = publishes tr"
  "publishes (Log l # tr) = publishes tr"
  "publishes (tr1 @ tr2) = publishes tr1 @ publishes tr2"
  by (simp_all add: publishes_def)

lemma posts_simps:
  "posts [] = []"
  "posts (Enqueue n d # tr) = posts tr"
  "posts (Emit ev d t # tr) = posts tr"
  "posts (Publish tp d # tr) = posts tr"
  "posts (HttpPost u d # tr) = HttpPost u d # posts tr"
  "posts (Log l # tr) = posts tr"
  "posts (tr1 @ tr2) = posts tr1 @ posts tr2"
  by (simp_all add: posts_def)

lemma process_message_async_enqueues:
  "enqueues (fst (process_message_async e message_data)) =
     (if payload_type message_data = JStr ''text'' \<and> has_content message_data
      then [Enqueue image_job message_data]
      else if payload_type message_data = JStr ''audio'' \<and> has_content message_data
      then [Enqueue transcription_job message_data]
      else [])"
  by (simp add: process_message_async_def payload_type_def has_content_def image_job_def
      transcription_job_def delay_def Let_def enqueues_simps)

text \<open>
  Claim C6.  For every payload the routing step calls \<^verbatim>\<open>delay\<close> on the Image-Generation
  Job exactly when the type is \<^verbatim>\<open>'text'\<close> and the content is non-empty, on the
  Audio-Transcription Job exactly when the type is \<^verbatim>\<open>'audio'\<close> and the content is
  non-empty, and on no job for any other type; the job is handed the payload itself.
  "Non-empty" is Python's truth value of the content, which for a string is \<open>s \<noteq> []\<close>.
\<close>

theorem process_message_async_routing:
  "(Enqueue image_job message_data \<in> set (fst (process_message_async e message_data)) \<longleftrightarrow>
      payload_type message_data = JStr ''text'' \<and> has_content message_data) \<and>
   (Enqueue transcription_job message_data \<in> set (fst (process_message_async e message_data)) \<longleftrightarrow>
      payload_type message_data = JStr ''audio'' \<and> has_content message_data) \<and>
   (payload_type message_data \<noteq> JStr ''text'' \<and> payload_type message_data \<noteq> JStr ''audio'' \<longrightarrow>
      enqueues (fst (process_message_async e message_data)) = []) \<and>
   enqueues (fst (process_message_async e message_data)) =
     (if payload_type message_data = JStr ''text'' \<and> has_content message_data
      then [Enqueue image_job message_data]
      else if payload_type message_data = JStr ''audio'' \<and> has_content message_data
      then [Enqueue transcription_job message_data]
      else []) \<and>
   (\<forall>s. dict_get_default message_data ''content'' (JStr []) = JStr s \<longrightarrow>
        (has_content message_data \<longleftrightarrow> s \<noteq> []))"
proof -
  have mem: "\<And>x. is_enqueue x \<Longrightarrow>
      x \<in> set (fst (process_message_async e message_data)) \<longleftrightarrow>
      x \<in> set (enqueues (fst (process_message_async e message_data)))"
    by (simp add: enqueues_def)
  have ne: "image_job \<noteq> transcription_job"
    by (simp add: image_job_def transcription_job_def)
  show ?thesis
    using ne by (auto simp: mem process_message_async_enqueues has_content_def)
qed

theorem process_message_async_routing_witness:
  "enqueues (fst (process_message_async mock_env text_job)) = [Enqueue image_job text_job] \<and>
   enqueues (fst (process_message_async mock_env audio_job)) = [Enqueue transcription_job audio_job] \<and>
   enqueues (fst (process_message_async mock_env
       [(''id'', JStr ''msg_3''), (''type'', JStr ''image''), (''content'', JStr ''aW1n'')])) = []"
proof -
  have t: "payload_type text_job = JStr ''text''" "has_content text_job"
    "payload_type audio_job = JStr ''audio''" "has_content audio_job"
    "payload_type [(''id'', JStr ''msg_3''), (''type'', JStr ''image''), (''content'', JStr ''aW1n'')]
       = JStr ''image''"
    by (simp_all add: payload_type_def has_content_def text_job_def audio_job_def
        dict_get_default_def)
  from process_message_async_routing [of text_job mock_env]
       process_message_async_routing [of audio_job mock_env]
       process_message_async_routing
         [of "[(''id'', JStr ''msg_3''), (''type'', JStr ''image''), (''content'', JStr ''aW1n'')]" mock_env]
  show ?thesis
    using t by simp
qed


lemma receivers_of_simps:
  "receivers_of reg ev [] = {}"
  "receivers_of reg ev (x # tr) = event_receivers reg ev x \<union> receivers_of reg ev tr"
  "receivers_of reg ev (tr1 @ tr2) = receivers_of reg ev tr1 \<union> receivers_of reg ev tr2"
  by (simp_all add: receivers_of_def)




lemma emit_image_cases:
  "emit_image e md p images = [Log Error] \<or> emit_image e md p images = [Log Warning] \<or>
   (\<exists>d l. truthy (dict_get md ''sid'') \<and>
          emit_image e md p images = [Emit ''image'' d (ToRoom (dict_get md ''sid'')), Log l])"
  by (auto simp: emit_image_def socketio_emit_def Let_def
      split: sum.splits json.splits option.splits)

lemma emit_image_emits:
  "emits (emit_image e md p images) = [] \<or>
   (\<exists>d. truthy (dict_get md ''sid'') \<and>
        emits (emit_image e md p images) = [Emit ''image'' d (ToRoom (dict_get md ''sid''))])"
  using emit_image_cases [of e md p images] by (auto simp: emits_simps)

lemma emit_image_no_other:
  "enqueues (emit_image e md p images) = []" "posts (emit_image e md p images) = []"
  "publishes (emit_image e md p images) = []"
  using emit_image_cases [of e md p images]
  by (auto simp: enqueues_simps posts_simps publishes_simps)

lemma generate_image_async_emits:
  "emits (fst (generate_image_async e md)) = [] \<or>
   (\<exists>d. truthy (dict_get md ''sid'') \<and>
        emits (fst (generate_image_async e md)) = [Emit ''image'' d (ToRoom (dict_get md ''sid''))])"
proof -
  have "emits (fst (generate_image_async e md)) = [] \<or>
        (\<exists>p images. emits (fst (generate_image_async e md)) = emits (emit_image e md p images))"
    by (auto simp: generate_image_async_def Let_def emits_simps
        split: sum.splits option.splits http_outcome.splits)
  then show ?thesis using emit_image_emits by metis
qed


lemma receivers_of_emits: "receivers_of reg ev (emits tr) = receivers_of reg ev tr"
proof (induction tr)
  case Nil
  show ?case by (simp add: emits_simps)
next
  case (Cons x tr)
  then show ?case by (cases x) (simp_all add: emits_simps receivers_of_simps)
qed

lemma set_emits: "set (emits tr) = {x \<in> set tr. is_emit x}"
  by (auto simp: emits_def)

text \<open>
  Claim C1.  In every run of the Image-Generation Job, successful or not, there is at
  most one emit; it is the event \<^verbatim>\<open>'image'\<close> sent to the room of the session id stored
  in the payload under \<^verbatim>\<open>'sid'\<close>; no emit is a broadcast; and no session other than the
  stored one receives the event, whatever the registry holds.
\<close>

theorem generate_image_async_session_scoped:
  "length (emits (fst (generate_image_async e md))) \<le> 1 \<and>
   (\<forall>x \<in> set (emits (fst (generate_image_async e md))).
       \<exists>d. x = Emit ''image'' d (ToRoom (dict_get md ''sid''))) \<and>
   (\<forall>ev d skip. Emit ev d (ToAll skip) \<notin> set (fst (generate_image_async e md))) \<and>
   receivers_of reg ''image'' (fst (generate_image_async e md))
     \<subseteq> {s \<in> reg. JStr s = dict_get md ''sid''} \<and>
   (\<forall>s. JStr s \<noteq> dict_get md ''sid'' \<longrightarrow>
        s \<notin> receivers_of reg ''image'' (fst (generate_image_async e md)))"
proof -
  let ?tr = "fst (generate_image_async e md)"
  from generate_image_async_emits [of e md]
  consider "emits ?tr = []"
    | d where "emits ?tr = [Emit ''image'' d (ToRoom (dict_get md ''sid''))]"
    by blast
  then have shape: "length (emits ?tr) \<le> 1 \<and>
      (\<forall>x \<in> set (emits ?tr). \<exists>d. x = Emit ''image'' d (ToRoom (dict_get md ''sid'')))"
    by cases auto
  have noall: "Emit ev d (ToAll skip) \<notin> set ?tr" for ev d skip
  proof
    assume "Emit ev d (ToAll skip) \<in> set ?tr"
    then have "Emit ev d (ToAll skip) \<in> set (emits ?tr)" by (simp add: set_emits)
    with shape show False by auto
  qed
  have sub: "receivers_of reg ''image'' ?tr \<subseteq> {s \<in> reg. JStr s = dict_get md ''sid''}"
  proof -
    from generate_image_async_emits [of e md]
    have "receivers_of reg ''image'' (emits ?tr) \<subseteq> {s \<in> reg. JStr s = dict_get md ''sid''}"
      by (auto simp: receivers_of_simps)
    then show ?thesis by (simp add: receivers_of_emits)
  qed
  from shape noall sub show ?thesis by blast
qed

lemma generate_image_async_mock:
  "fst (generate_image_async mock_env text_job) =
     [Log Info,
      HttpPost generate_image_URL [(''positive'', JStr ''a cat''), (''negative'', JStr []),
                                   (''height'', JNum 512), (''width'', JNum 512)],
      Log Info,
      Emit ''image'' [(''status'', JStr ''success''), (''type'', JStr ''image''),
                      (''image_data'', JStr ''aW1n''), (''message_id'', JStr ''msg_1''),
                      (''prompt'', JStr ''a cat''), (''sender'', JStr ''Server'')]
           (ToRoom (JStr ''A'')),
      Log Info]"
  by (simp add: generate_image_async_def mock_env_def text_job_def dict_get_default_def
      dict_get_def prompt_text_of_def check_images_def dict_has_def emit_image_def
      socketio_emit_def Let_def)

theorem generate_image_async_session_scoped_witness:
  "receivers_of {''A'', ''B'', ''C''} ''image'' (fst (generate_image_async mock_env text_job)) = {''A''}"
proof -
  have sid: "dict_get text_job ''sid'' = JStr ''A''"
    by (simp add: text_job_def dict_get_def dict_get_default_def)
  from generate_image_async_session_scoped [of mock_env text_job "{''A'', ''B'', ''C''}"]
  have "receivers_of {''A'', ''B'', ''C''} ''image'' (fst (generate_image_async mock_env text_job))
          \<subseteq> {''A''}"
    unfolding sid by auto
  moreover have "''A'' \<in> receivers_of {''A'', ''B'', ''C''} ''image''
                          (fst (generate_image_async mock_env text_job))"
    by (simp add: generate_image_async_mock receivers_of_simps)
  ultimately show ?thesis by blast
qed


lemma check_images_no_list: "no_image_list data \<Longrightarrow> check_images data = Inr None"
  by (auto simp: no_image_list_def check_images_def dict_has_def
      split: json.splits option.splits)

lemma generate_image_async_never_enqueues: "enqueues (fst (generate_image_async e md)) = []"
  by (auto simp: generate_image_async_def Let_def enqueues_simps emit_image_no_other
      split: sum.splits option.splits http_outcome.splits)

lemma generate_image_async_posts_once: "length (posts (fst (generate_image_async e md))) \<le> 1"
  by (auto simp: generate_image_async_def Let_def posts_simps emit_image_no_other
      split: sum.splits option.splits http_outcome.splits)

lemma generate_image_async_request:
  assumes "HttpPost u req \<in> set (fst (generate_image_async e md))"
  shows "\<exists>p. prompt_text_of e (dict_get_default md ''content'' (JStr [])) = Inr p \<and>
             sliceable (dict_get_default md ''content'' (JStr [])) \<and>
             u = generate_image_URL \<and>
             req = [(''positive'', p), (''negative'', JStr []),
                    (''height'', JNum 512), (''width'', JNum 512)]"
proof -
  have np: "HttpPost u req \<notin> set (emit_image e md p images)" for p images
    using emit_image_cases [of e md p images] by auto
  from assms show ?thesis
    by (auto simp: generate_image_async_def Let_def np
        split: sum.splits option.splits http_outcome.splits if_splits)
qed

text \<open>
  Claim C5.  In every run of the Image-Generation Job in which the request was sent and
  the generator answered with a status other than 200, or with status 200 and an image
  list that is missing or empty, the job returns \<^verbatim>\<open>(None, error)\<close>, has sent that one
  request and no other (no retry), emits nothing to any client and enqueues no job.
\<close>

theorem generate_image_async_upstream_failure:
  assumes "HttpPost u req \<in> set (fst (generate_image_async e md))"
    and "bad_response (http_post e req)"
  shows "fst (snd (generate_image_async e md)) = None \<and>
         snd (snd (generate_image_async e md)) \<noteq> None \<and>
         posts (fst (generate_image_async e md)) = [HttpPost u req] \<and>
         emits (fst (generate_image_async e md)) = [] \<and>
         enqueues (fst (generate_image_async e md)) = []"
proof -
  from generate_image_async_request [OF assms(1)]
  obtain p where p: "prompt_text_of e (dict_get_default md ''content'' (JStr [])) = Inr p"
    and sl: "sliceable (dict_get_default md ''content'' (JStr []))"
    and u: "u = generate_image_URL"
    and req: "req = [(''positive'', p), (''negative'', JStr []),
                     (''height'', JNum 512), (''width'', JNum 512)]"
    by blast
  from assms(2) obtain status_code body where r: "http_post e req = Response status_code body"
    and bad: "status_code \<noteq> 200 \<or> (\<exists>data. body = Some data \<and> no_image_list data)"
    by (auto simp: bad_response_def split: http_outcome.splits option.splits)
  show ?thesis
  proof (cases "status_code = 200")
    case False
    with p sl r show ?thesis unfolding u req
      by (simp add: generate_image_async_def Let_def posts_simps emits_simps enqueues_simps)
  next
    case True
    with bad obtain data where "body = Some data" and "no_image_list data" by blast
    with True p sl r show ?thesis unfolding u req
      by (simp add: generate_image_async_def Let_def posts_simps emits_simps enqueues_simps
          check_images_no_list)
  qed
qed


theorem generate_image_async_upstream_failure_witness:
  "fst (snd (generate_image_async (mock_env\<lparr>http_post := (\<lambda>d. Response 500 None)\<rparr>) text_job)) = None \<and>
   snd (snd (generate_image_async (mock_env\<lparr>http_post := (\<lambda>d. Response 500 None)\<rparr>) text_job))
     = Some ''API Error: ?'' \<and>
   emits (fst (generate_image_async (mock_env\<lparr>http_post := (\<lambda>d. Response 500 None)\<rparr>) text_job)) = [] \<and>
   enqueues (fst (generate_image_async (mock_env\<lparr>http_post := (\<lambda>d. Response 500 None)\<rparr>) text_job)) = [] \<and>
   length (posts (fst (generate_image_async (mock_env\<lparr>http_post := (\<lambda>d. Response 500 None)\<rparr>) text_job))) = 1 \<and>
   fst (snd (generate_image_async
     (mock_env\<lparr>http_post := (\<lambda>d. Response 200 (Some (JDict [(''images'', JList [])])))\<rparr>) text_job)) = None \<and>
   snd (snd (generate_image_async
     (mock_env\<lparr>http_post := (\<lambda>d. Response 200 (Some (JDict [(''images'', JList [])])))\<rparr>) text_job))
     = Some ''API Error: No images returned from API'' \<and>
   emits (fst (generate_image_async
     (mock_env\<lparr>http_post := (\<lambda>d. Response 200 (Some (JDict [(''images'', JList [])])))\<rparr>) text_job)) = []"
proof -
  let ?e1 = "mock_env\<lparr>http_post := (\<lambda>d. Response 500 None)\<rparr>"
  let ?e2 = "mock_env\<lparr>http_post := (\<lambda>d. Response 200 (Some (JDict [(''images'', JList [])])))\<rparr>"
  let ?req = "[(''positive'', JStr ''a cat''), (''negative'', JStr []),
               (''height'', JNum 512), (''width'', JNum 512)]"
  have run1: "generate_image_async ?e1 text_job =
      ([Log Info, HttpPost generate_image_URL ?req, Log Error], None, Some ''API Error: ?'')"
    by (simp add: generate_image_async_def mock_env_def text_job_def dict_get_default_def
        prompt_text_of_def Let_def)
  have run2: "generate_image_async ?e2 text_job =
      ([Log Info, HttpPost generate_image_URL ?req, Log Error], None,
       Some ''API Error: No images returned from API'')"
    by (simp add: generate_image_async_def mock_env_def text_job_def dict_get_default_def
        prompt_text_of_def check_images_def dict_has_def Let_def)
  have m1: "HttpPost generate_image_URL ?req \<in> set (fst (generate_image_async ?e1 text_job))"
    by (simp add: run1)
  have m2: "HttpPost generate_image_URL ?req \<in> set (fst (generate_image_async ?e2 text_job))"
    by (simp add: run2)
  have b1: "bad_response (http_post ?e1 ?req)"
    by (simp add: bad_response_def)
  have b2: "bad_response (http_post ?e2 ?req)"
    by (simp add: bad_response_def no_image_list_def)
  from generate_image_async_upstream_failure [OF m1 b1]
  have c1: "fst (snd (generate_image_async ?e1 text_job)) = None"
    "emits (fst (generate_image_async ?e1 text_job)) = []"
    "enqueues (fst (generate_image_async ?e1 text_job)) = []"
    "length (posts (fst (generate_image_async ?e1 text_job))) = 1"
    by simp_all
  from generate_image_async_upstream_failure [OF m2 b2]
  have c2: "fst (snd (generate_image_async ?e2 text_job)) = None"
    "emits (fst (generate_image_async ?e2 text_job)) = []"
    by simp_all
  have s1: "snd (snd (generate_image_async ?e1 text_job)) = Some ''API Error: ?''"
    by (simp add: run1)
  have s2: "snd (snd (generate_image_async ?e2 text_job))
              = Some ''API Error: No images returned from API''"
    by (simp add: run2)
  from c1 c2 s1 s2 show ?thesis by blast
qed

section \<open>The transcription job\<close>

lemma segments_text_fold:
  "foldl (\<lambda>result text. result @ lstrip text @ [CHR 0x0A, CHR 0x0A]) acc segments =
     acc @ concat (map (\<lambda>text. lstrip text @ [CHR 0x0A, CHR 0x0A]) segments)"
  by (induction segments arbitrary: acc) simp_all

lemma segments_text_concat:
  "segments_text segments =
     '' '' @ concat (map (\<lambda>text. lstrip text @ [CHR 0x0A, CHR 0x0A]) segments)"
  by (simp add: segments_text_def segments_text_fold)








lemma segments_text_starts_with_space: "\<exists>rest. segments_text segments = CHR '' '' # rest"
  by (simp add: segments_text_concat)








text \<open>
  Claim C4 asks that a failure of the model loading is logged and returned as an error
  result.  The code at that input: the exception of \<^verbatim>\<open>WhisperModel(...)\<close> leaves the task,
  nothing is logged and nothing is returned.  (For failures of the decoding and of the
  transcription the claim holds, see \<open>whisper_audio_async_failure_inside_try\<close> below.)
\<close>

theorem whisper_audio_async_model_load_raises:
  "whisper_audio_async (mock_env\<lparr>model_load_ok := False\<rparr>) empty_fs audio_job
     = (empty_fs, [], Inl ModelLoadError)"
  by (simp add: whisper_audio_async_def)

lemma whisper_audio_async_raises_iff:
  "(\<exists>x. snd (snd (whisper_audio_async e fs md)) = Inl x) \<longleftrightarrow> \<not> model_load_ok e"
  by (auto simp: whisper_audio_async_def Let_def delay_def split: sum.splits option.splits)

lemma whisper_audio_async_failure_inside_try:
  assumes "model_load_ok e"
    and "decode_audio e (dict_get_default md ''content'' (JStr [])) = Inl x \<or>
         (\<exists>bytes. decode_audio e (dict_get_default md ''content'' (JStr [])) = Inr bytes \<and>
                  transcribe e bytes = None)"
  shows "\<exists>err. snd (snd (whisper_audio_async e fs md)) = Inr (None, Some err)"
    and "Log Error \<in> set (fst (snd (whisper_audio_async e fs md)))"
    and "enqueues (fst (snd (whisper_audio_async e fs md))) = []"
    and "emits (fst (snd (whisper_audio_async e fs md))) = []"
  using assms
  by (auto simp: whisper_audio_async_def Let_def enqueues_simps emits_simps
      close_file_def write_file_def open_wb_def)

section \<open>A message without a type\<close>

lemma map_of_dict_set: "map_of (dict_set d k v) = (map_of d)(k \<mapsto> v)"
  by (simp add: dict_set_def update_conv')

lemma dict_reads_dict_set:
  "dict_get (dict_set d k v) k' = (if k' = k then v else dict_get d k')"
  "dict_get_default (dict_set d k v) k' dflt = (if k' = k then v else dict_get_default d k' dflt)"
  "dict_has (dict_set d k v) k' = (k' = k \<or> dict_has d k')"
  by (simp_all add: dict_get_def dict_get_default_def dict_has_def map_of_dict_set)

lemma dict_set_nonempty: "dict_set d k v \<noteq> []"
  by (cases d) (simp_all add: dict_set_def)

lemma truthy_content_has: "truthy (dict_get d ''content'') \<Longrightarrow> dict_has d ''content''"
  by (auto simp: dict_get_def dict_get_default_def dict_has_def split: option.splits)

lemma normalize_with_content:
  "truthy (dict_get d ''content'') \<Longrightarrow> normalize_message_data d = d"
  by (simp add: normalize_message_data_def truthy_content_has)

lemma typeless_default:
  "\<not> dict_has d ''type'' \<Longrightarrow> dict_get_default d ''type'' (JStr ''text'') = JStr ''text''"
  by (simp add: dict_has_def dict_get_default_def)

lemma validate_typeless:
  assumes "\<not> dict_has d ''type''" and "truthy (dict_get d ''content'')"
  shows "validate_message e (JDict d) = Inr (True, [])"
proof -
  from assms(2) have "d \<noteq> []" by (auto simp: dict_get_def dict_get_default_def)
  with assms show ?thesis
    by (simp add: validate_message_def typeless_default valid_types_def)
qed

lemma process_incoming_typeless:
  assumes "\<not> dict_has d ''type''" and "truthy (dict_get d ''content'')"
  shows "process_incoming_message e d sid sc bo qa =
         process_incoming_message e (dict_set d ''type'' (JStr ''text'')) sid sc bo qa"
proof -
  let ?d' = "dict_set d ''type'' (JStr ''text'')"
  have c': "truthy (dict_get ?d' ''content'')"
    using assms(2) by (simp add: dict_reads_dict_set)
  have v: "validate_message e (JDict d) = Inr (True, [])"
    using assms by (rule validate_typeless)
  have v': "validate_message e (JDict ?d') = Inr (True, [])"
    using c' by (simp add: validate_message_def dict_reads_dict_set valid_types_def
        dict_set_nonempty)
  show ?thesis
    unfolding process_incoming_message_def
    by (simp add: normalize_with_content assms c' v v' dict_reads_dict_set typeless_default)
qed


lemma send_message_typeless_run:
  assumes "\<not> dict_has d ''type''" and "truthy (dict_get d ''content'')"
  shows "send_message e (JDict d) =
     (let (tr, r) = broadcast_message e (default_text_message e d) True None
      in case r of
           Inl x \<Rightarrow> (tr @ [Log Error], 500, [(''error'', JStr ''Internal server error'')])
         | Inr u \<Rightarrow> (tr @ [Log Info], 200,
                    [(''success'', JBool True),
                     (''message'', JDict (to_dict (default_text_message e d)))]))"
  unfolding default_text_message_def
  by (simp add: send_message_def validate_typeless [OF assms] typeless_default [OF assms(1)]
      Let_def)

lemma send_message_typeless:
  assumes "\<not> dict_has d ''type''" and "truthy (dict_get d ''content'')"
  shows "send_message e (JDict d) = send_message e (JDict (dict_set d ''type'' (JStr ''text'')))"
proof -
  let ?d' = "dict_set d ''type'' (JStr ''text'')"
  have c': "truthy (dict_get ?d' ''content'')"
    using assms(2) by (simp add: dict_reads_dict_set)
  have v': "validate_message e (JDict ?d') = Inr (True, [])"
    using c' by (simp add: validate_message_def dict_reads_dict_set valid_types_def
        dict_set_nonempty)
  have "send_message e (JDict ?d') =
     (let (tr, r) = broadcast_message e (default_text_message e d) True None
      in case r of
           Inl x \<Rightarrow> (tr @ [Log Error], 500, [(''error'', JStr ''Internal server error'')])
         | Inr u \<Rightarrow> (tr @ [Log Info], 200,
                    [(''success'', JBool True),
                     (''message'', JDict (to_dict (default_text_message e d)))]))"
    unfolding default_text_message_def
    by (simp add: send_message_def v' dict_reads_dict_set Let_def)
  with send_message_typeless_run [OF assms] show ?thesis by simp
qed

lemma broadcast_to_all_run:
  "broadcast_message e m True None =
     (if socketio_ok e
      then (if redis_ok e
            then ([Log Debug, Emit ''message'' (to_dict m) (ToAll None),
                   Publish ''messages'' (to_dict m), Log Info], Inr ())
            else ([Log Debug, Emit ''message'' (to_dict m) (ToAll None),
                   Publish ''messages'' (to_dict m), Log Error], Inl RedisError))
      else ([Log Debug, Emit ''message'' (to_dict m) (ToAll None), Log Error], Inl SocketIOError))"
  by (simp add: broadcast_message_def socketio_emit_def redis_publish_def Let_def)

lemma handle_message_typeless:
  assumes "\<not> dict_has d ''type''" and "truthy (dict_get d ''content'')"
  shows "handle_message e (JDict d) sid =
     ([Enqueue routing_job (dict_set (to_dict (default_text_message e d)) ''sid'' (JStr sid)),
       Log (if broker_ok e then Debug else Warning), Log Info, Log Info], Inr ())"
proof -
  let ?d1 = "dict_set d ''sid'' (JStr sid)"
  have t1: "\<not> dict_has ?d1 ''type''" using assms(1) by (simp add: dict_reads_dict_set)
  have c1: "truthy (dict_get ?d1 ''content'')" using assms(2) by (simp add: dict_reads_dict_set)
  show ?thesis
    by (simp add: handle_message_def process_incoming_message_def normalize_with_content [OF c1]
        validate_typeless [OF t1 c1] typeless_default [OF assms(1)] dict_reads_dict_set
        default_text_message_def send_task_def routing_job_def Let_def)
qed

lemma default_text_payload:
  "payload_type (dict_set (to_dict (default_text_message e d)) ''sid'' (JStr sid)) = JStr ''text''"
  "has_content (dict_set (to_dict (default_text_message e d)) ''sid'' (JStr sid))
     = truthy (dict_get d ''content'')"
  by (simp_all add: payload_type_def has_content_def dict_reads_dict_set to_dict_def
      default_text_message_def create_message_def create_def Let_def dict_get_default_def
      map_of_dict_set)


text \<open>
  Claim C10, amended.  For every input object with non-empty content and no \<^verbatim>\<open>type\<close>
  field, the validator accepts it and every stage takes the type to be \<^verbatim>\<open>'text'\<close>:
  \<^verbatim>\<open>process_incoming_message\<close> and the REST send endpoint behave exactly as on the same
  object with \<^verbatim>\<open>type: 'text'\<close> added.  Sent over the WebSocket, the message is queued with
  type \<^verbatim>\<open>'text'\<close> and the routing step enqueues the Image-Generation Job for it, and
  nothing is emitted or published; sent to the REST endpoint, it is emitted to all
  sessions with type \<^verbatim>\<open>'text'\<close> (and published, with status 200, when the transport and
  the channel answer), and no job is queued.
\<close>

theorem typeless_message_is_text:
  assumes "\<not> dict_has d ''type''" and "truthy (dict_get d ''content'')"
  shows "validate_message e (JDict d) = Inr (True, []) \<and>
         process_incoming_message e d sid sc bo qa
           = process_incoming_message e (dict_set d ''type'' (JStr ''text'')) sid sc bo qa \<and>
         send_message e (JDict d) = send_message e (JDict (dict_set d ''type'' (JStr ''text''))) \<and>
         msg_type (default_text_message e d) = JStr ''text'' \<and>
         enqueues (fst (handle_message e (JDict d) sid))
           = [Enqueue routing_job
                (dict_set (to_dict (default_text_message e d)) ''sid'' (JStr sid))] \<and>
         emits (fst (handle_message e (JDict d) sid)) = [] \<and>
         publishes (fst (handle_message e (JDict d) sid)) = [] \<and>
         enqueues (fst (process_message_async e
                     (dict_set (to_dict (default_text_message e d)) ''sid'' (JStr sid))))
           = [Enqueue image_job
                (dict_set (to_dict (default_text_message e d)) ''sid'' (JStr sid))] \<and>
         emits (fst (send_message e (JDict d)))
           = [Emit ''message'' (to_dict (default_text_message e d)) (ToAll None)] \<and>
         enqueues (fst (send_message e (JDict d))) = [] \<and>
         (socketio_ok e \<and> redis_ok e \<longrightarrow>
            fst (snd (send_message e (JDict d))) = 200 \<and>
            publishes (fst (send_message e (JDict d)))
              = [Publish ''messages'' (to_dict (default_text_message e d))])"
proof -
  have ty: "msg_type (default_text_message e d) = JStr ''text''"
    by (simp add: default_text_message_def create_message_def create_def)
  have ws: "enqueues (fst (handle_message e (JDict d) sid))
              = [Enqueue routing_job
                   (dict_set (to_dict (default_text_message e d)) ''sid'' (JStr sid))]"
    "emits (fst (handle_message e (JDict d) sid)) = []"
    "publishes (fst (handle_message e (JDict d) sid)) = []"
    by (simp_all add: handle_message_typeless [OF assms] enqueues_simps emits_simps
        publishes_simps)
  have route: "enqueues (fst (process_message_async e
                     (dict_set (to_dict (default_text_message e d)) ''sid'' (JStr sid))))
           = [Enqueue image_job
                (dict_set (to_dict (default_text_message e d)) ''sid'' (JStr sid))]"
    by (simp add: process_message_async_enqueues default_text_payload assms(2))
  have rest: "emits (fst (send_message e (JDict d)))
           = [Emit ''message'' (to_dict (default_text_message e d)) (ToAll None)]"
    "enqueues (fst (send_message e (JDict d))) = []"
    "socketio_ok e \<and> redis_ok e \<longrightarrow>
            fst (snd (send_message e (JDict d))) = 200 \<and>
            publishes (fst (send_message e (JDict d)))
              = [Publish ''messages'' (to_dict (default_text_message e d))]"
    by (simp_all add: send_message_typeless_run [OF assms] broadcast_to_all_run
        emits_simps enqueues_simps publishes_simps)
  from validate_typeless [OF assms, of e] process_incoming_typeless [OF assms, of e sid sc bo qa]
    send_message_typeless [OF assms, of e] ty ws route rest
  show ?thesis by (intro conjI)
qed

text \<open>
  The claim as it stands says that such a message is broadcast and routed into the
  derivation path.  No ingress does both: the WebSocket handler calls
  \<^verbatim>\<open>process_incoming_message\<close> with its default flags, which queue the message and do not
  broadcast it; the REST endpoint broadcasts it and queues nothing.
\<close>

theorem typeless_message_counterexample:
  "\<not> dict_has [(''content'', JStr ''hi'')] ''type'' \<and>
   emits (fst (handle_message mock_env (JDict [(''content'', JStr ''hi'')]) ''A'')) = [] \<and>
   publishes (fst (handle_message mock_env (JDict [(''content'', JStr ''hi'')]) ''A'')) = [] \<and>
   enqueues (fst (handle_message mock_env (JDict [(''content'', JStr ''hi'')]) ''A'')) \<noteq> [] \<and>
   emits (fst (send_message mock_env (JDict [(''content'', JStr ''hi'')]))) \<noteq> [] \<and>
   enqueues (fst (send_message mock_env (JDict [(''content'', JStr ''hi'')]))) = []"
  by (simp add: handle_message_def emit_error_def process_incoming_message_def send_message_def
      normalize_message_data_def validate_message_def valid_types_def
      dict_has_def dict_get_def dict_get_default_def dict_set_def
      broadcast_message_def socketio_emit_def redis_publish_def send_task_def
      mock_env_def Let_def emits_simps publishes_simps enqueues_simps)

theorem typeless_message_is_text_witness:
  "validate_message mock_env (JDict [(''content'', JStr ''hi'')]) = Inr (True, []) \<and>
   enqueues (fst (handle_message mock_env (JDict [(''content'', JStr ''hi'')]) ''A''))
     = [Enqueue routing_job
          [(''id'', JStr ''msg_1''), (''type'', JStr ''text''), (''content'', JStr ''hi''),
           (''sender'', JStr ''anonymous''), (''timestamp'', JStr ''t0''), (''sid'', JStr ''A'')]] \<and>
   enqueues (fst (process_message_async mock_env
          [(''id'', JStr ''msg_1''), (''type'', JStr ''text''), (''content'', JStr ''hi''),
           (''sender'', JStr ''anonymous''), (''timestamp'', JStr ''t0''), (''sid'', JStr ''A'')]))
     = [Enqueue image_job
          [(''id'', JStr ''msg_1''), (''type'', JStr ''text''), (''content'', JStr ''hi''),
           (''sender'', JStr ''anonymous''), (''timestamp'', JStr ''t0''), (''sid'', JStr ''A'')]] \<and>
   emits (fst (send_message mock_env (JDict [(''content'', JStr ''hi'')])))
     = [Emit ''message''
          [(''id'', JStr ''msg_1''), (''type'', JStr ''text''), (''content'', JStr ''hi''),
           (''sender'', JStr ''anonymous''), (''timestamp'', JStr ''t0'')] (ToAll None)] \<and>
   fst (snd (send_message mock_env (JDict [(''content'', JStr ''hi'')]))) = 200"
proof -
  have h: "\<not> dict_has [(''content'', JStr ''hi'')] ''type''"
    "truthy (dict_get [(''content'', JStr ''hi'')] ''content'')"
    by (simp_all add: dict_has_def dict_get_def dict_get_default_def)
  have m: "to_dict (default_text_message mock_env [(''content'', JStr ''hi'')])
     = [(''id'', JStr ''msg_1''), (''type'', JStr ''text''), (''content'', JStr ''hi''),
        (''sender'', JStr ''anonymous''), (''timestamp'', JStr ''t0'')]"
    by (simp add: default_text_message_def create_message_def create_def to_dict_def
        dict_get_def dict_get_default_def mock_env_def)
  have p: "dict_set [(''id'', JStr ''msg_1''), (''type'', JStr ''text''), (''content'', JStr ''hi''),
        (''sender'', JStr ''anonymous''), (''timestamp'', JStr ''t0'')] ''sid'' (JStr ''A'')
     = [(''id'', JStr ''msg_1''), (''type'', JStr ''text''), (''content'', JStr ''hi''),
        (''sender'', JStr ''anonymous''), (''timestamp'', JStr ''t0''), (''sid'', JStr ''A'')]"
    by (simp add: dict_set_def)
  have ok: "socketio_ok mock_env \<and> redis_ok mock_env" by (simp add: mock_env_def)
  from typeless_message_is_text [OF h, of mock_env "''A''" False False True] ok
  show ?thesis unfolding m p by blast
qed

end
